theory Spec2Isabelle
  imports Main "HOL-Library.AList"
begin

section \<open>The import command of stitch-cli (commands/import.go)\<close>

text \<open>
  The command is an orchestrator: nearly every line of \<^verbatim>\<open>importApp\<close> calls a collaborator
  (the Stitch API client, the hosting package, the prompt helpers of the base command, the
  file system) and decides what to do next from the result.  The embedding keeps the control
  flow of the source and makes the collaborators explicit:
  \<^item> every call of a collaborator, and every line printed on the UI, is an \<open>event\<close>; a run
    yields the list of its events in program order;
  \<^item> what each call returns is read from an environment record \<open>env\<close>, one field per
    call site (each call site is executed at most once in a run, the project prompt of
    \<^verbatim>\<open>resolveGroupID\<close> apart, whose answers are a list);
  \<^item> a Go \<^verbatim>\<open>error\<close> is the string of its \<^verbatim>\<open>Error()\<close> method; a function that returns
    \<^verbatim>\<open>(x, err)\<close> returns a sum, \<open>Inl\<close> the error;
  \<^item> the variables \<^verbatim>\<open>importApp\<close> assigns (\<^verbatim>\<open>ic.flagStrategy\<close>, \<^verbatim>\<open>skipDiff\<close>,
    \<^verbatim>\<open>assetMetadataDiffs\<close>) are a state record handed from step to step and returned.
\<close>

subsection \<open>Constants and error constructors (lines 22-48)\<close>

definition importStrategyMerge :: string where
  "importStrategyMerge = ''merge''"

definition importStrategyReplace :: string where
  "importStrategyReplace = ''replace''"

definition locationOptions :: "string list" where
  "locationOptions = [''US-VA'', ''US-OR'', ''IE'', ''AU'']"

definition deploymentModelOptions :: "string list" where
  "deploymentModelOptions = [''GLOBAL'', ''LOCAL'']"

definition errCreateAppSyncFailure :: "string \<Rightarrow> string" where
  "errCreateAppSyncFailure err = ''failed to sync app with local directory after creation: '' @ err"

definition errImportAppSyncFailure :: "string \<Rightarrow> string" where
  "errImportAppSyncFailure err = ''failed to sync app with local directory after import: '' @ err"

definition errIncludeHosting :: "string \<Rightarrow> string" where
  "errIncludeHosting err = ''--include-hosting error: '' @ err"

text \<open>The two messages \<^verbatim>\<open>importApp\<close> builds for a failed apply (lines 308 and 315).\<close>

definition errImportFailure :: "string \<Rightarrow> string" where
  "errImportFailure err = ''failed to import app: '' @ err"

definition errHostingImportFailure :: "string \<Rightarrow> string" where
  "errHostingImportFailure err = ''failed to import hosting assets '' @ err"

subsection \<open>Data\<close>

text \<open>The fields of \<^verbatim>\<open>models.App\<close> the command reads.\<close>

record App =
  GroupID :: string
  ID :: string
  ClientAppID :: string
  Name :: string

text \<open>An Atlas project, as \<^verbatim>\<open>atlasClient.Groups()\<close> lists it (\<^verbatim>\<open>group.Name\<close>, \<^verbatim>\<open>group.ID\<close>).\<close>

record Group =
  Group_Name :: string
  Group_ID :: string

text \<open>
  \<^verbatim>\<open>models.AppInstanceData\<close> is a Go map; an association list with \<open>AList.update\<close> for
  the assignment \<^verbatim>\<open>m[k] = v\<close>.
\<close>

type_synonym AppInstanceData = "(string \<times> string) list"

text \<open>
  The error of the application lookup is the only one whose dynamic type the command
  inspects (the type switch of lines 195-203).
\<close>

datatype go_error = ErrAppNotFound string | ErrOther string

fun Error :: "go_error \<Rightarrow> string" where
  "Error (ErrAppNotFound m) = m"
| "Error (ErrOther m) = m"

text \<open>
  Reading a file that may be absent: the source tells \<^verbatim>\<open>os.IsNotExist(err)\<close> from any
  other error (lines 247 and 489).
\<close>

datatype 'a file_read = NotExist string | ReadError string | ReadOk 'a

text \<open>
  \<^verbatim>\<open>*hosting.AssetMetadataDiffs\<close>: the orchestrator only tests the pointer against nil, asks
  for the diff lines (\<^verbatim>\<open>Diff()\<close>) and hands the object to \<^verbatim>\<open>ImportHosting\<close>.
\<close>

datatype AssetMetadataDiffs = AssetMetadataDiffs (hostingDiff: "string list")

text \<open>The fields of \<^verbatim>\<open>ImportCommand\<close> and of its embedded \<^verbatim>\<open>BaseCommand\<close> that are read.\<close>

record ImportCommand =
  workingDirectory :: string
  flagAppID :: string
  flagAppPath :: string
  flagAppName :: string
  flagGroupID :: string
  flagStrategy :: string
  flagIncludeHosting :: bool
  flagResetCDNCache :: bool
  flagYes :: bool
  flagConfigPath :: string

subsection \<open>Events\<close>

datatype event =
    EvBaseRun
  | EvUser
  | EvHomedirExpand string
  | EvStat string
  | EvGetDirectoryContainingFile string
  | EvUnmarshalFile string
  | EvUnmarshalFromDir string
  | EvJsonMarshal
  | EvStitchClient
  | EvFetchAppByClientAppID string
  | EvFetchAppByGroupIDAndClientAppID string string
  | EvAskYesNo string
  | EvAsk string string
  | EvAskWithOptions string string "string list"
  | EvAtlasClient
  | EvGroups
  | EvGroupByName string
  | EvFetchAppsByGroupID string
  | EvCreateEmptyApp string string string string
  | EvWriteAppConfigToFile string AppInstanceData
  | EvFilepathAbs string
  | EvMetadataFileToAssetDescriptions string
  | EvGetAssetCachePath string
  | EvCacheFileToAssetCache string
  | EvNewAssetCache
  | EvListLocalAssetMetadata string string
  | EvUpdateCacheFile string
  | EvListAssetsForAppID string string
  | EvDiffAssetMetadata bool
  | EvDiff string string string string
  | EvImport string string string string
  | EvImportHosting string string string bool
  | EvExport string string bool
  | EvWriteToDirectory string string bool
  | EvCloseBody
  | EvUIInfo string
  | EvUIError string

text \<open>A run so far: the events in program order and what the function returned.\<close>

record 'a traced =
  trace :: "event list"
  out :: 'a

definition emit :: "event \<Rightarrow> 'a traced \<Rightarrow> 'a traced" where
  "emit ev r = r\<lparr>trace := ev # trace r\<rparr>"

definition emits :: "event list \<Rightarrow> 'a traced \<Rightarrow> 'a traced" where
  "emits evs r = r\<lparr>trace := evs @ trace r\<rparr>"

definition halt :: "'a \<Rightarrow> 'a traced" where
  "halt x = \<lparr>trace = [], out = x\<rparr>"

subsection \<open>The environment: what the collaborators return\<close>

text \<open>
  None of these is defined in the two source files.  The first group are constants and pure
  helpers of other packages, taken as parameters; the rest are the results of the calls,
  named after the function called.
\<close>

record env =
  ErrNotLoggedIn :: string
  AppIDField :: string
  AppNameField :: string
  HostingFilesDirectory :: string
  HostingAttributes :: string
  filepathJoin :: "string \<Rightarrow> string \<Rightarrow> string"
  inst_AppID :: "AppInstanceData \<Rightarrow> string"
  inst_AppName :: "AppInstanceData \<Rightarrow> string"
  inst_AppLocation :: "AppInstanceData \<Rightarrow> string"
  inst_AppDeploymentModel :: "AppInstanceData \<Rightarrow> string"
  fmtQ :: "string \<Rightarrow> string"
  mapRange :: "(string \<times> string) list \<Rightarrow> (string \<times> string) list"
  base_User :: "string + bool"
  homedir_Expand :: "string + string"
  os_Stat :: "string option"
  utils_GetDirectoryContainingFile :: "string + string"
  inst_UnmarshalFile :: "AppInstanceData file_read"
  utils_UnmarshalFromDir :: "string + string"
  json_Marshal :: "string + string"
  base_StitchClient :: "string option"
  fetch_StitchClient :: "go_error option"
  api_FetchAppByClientAppID :: "go_error + App"
  api_FetchAppByGroupIDAndClientAppID :: "go_error + App"
  create_AskYesNo :: "string + bool"
  appName_Ask :: "string + string"
  base_AtlasClient :: "string option"
  atlas_Groups :: "string + Group list"
  project_Ask :: "(string + string) list"
  atlas_GroupByName :: "string \<Rightarrow> string + Group"
  api_FetchAppsByGroupID :: "string + App list"
  location_AskWithOptions :: "string + string"
  deployment_AskWithOptions :: "string + string"
  api_CreateEmptyApp :: "string + App"
  writeAppConfigToFile :: "string option"
  filepath_Abs :: "string + string"
  hosting_MetadataFileToAssetDescriptions :: "string option"
  getAssetCachePath :: "string + string"
  hosting_CacheFileToAssetCache :: "unit file_read"
  hosting_ListLocalAssetMetadata :: "string + bool"
  hosting_UpdateCacheFile :: "string option"
  api_ListAssetsForAppID :: "string option"
  hosting_DiffAssetMetadata :: "bool \<Rightarrow> AssetMetadataDiffs option"
  api_Diff :: "string + string list"
  confirm_AskYesNo :: "string + bool"
  api_Import :: "string option"
  ImportHosting :: "string option"
  api_Export :: "string + string"
  writeToDirectory :: "string option"

text \<open>
  \<open>fmtQ\<close> is the verb \<^verbatim>\<open>%q\<close> of \<^verbatim>\<open>fmt\<close>; \<open>mapRange\<close> is the order in which
  \<^verbatim>\<open>range\<close> visits a Go map, which the language leaves open.
  \<open>hosting_ListLocalAssetMetadata\<close> returns, next to the error, what
  \<^verbatim>\<open>assetCache.Dirty()\<close> reports after the hashing; \<open>project_Ask\<close> lists the answers
  to the successive project prompts of \<^verbatim>\<open>resolveGroupID\<close>, and a run that needs more
  answers than the list holds is waiting for input and has not returned.
\<close>

subsection \<open>Helpers of the command (lines 337-514)\<close>

text \<open>
  \<^verbatim>\<open>isObjectIDHex\<close>: 24 characters that \<^verbatim>\<open>hex.DecodeString\<close> accepts, that is, hexadecimal
  digits of either case (the length being even).
\<close>

definition isHexDigit :: "char \<Rightarrow> bool" where
  "isHexDigit c = (c \<in> set ''0123456789abcdefABCDEF'')"

definition isObjectIDHex :: "string \<Rightarrow> bool" where
  "isObjectIDHex s = (if length s \<noteq> 24 then False else list_all isHexDigit s)"

text \<open>\<^verbatim>\<open>fetchAppByClientAppID\<close> (lines 337-348).\<close>

definition fetchAppByClientAppID :: "env \<Rightarrow> ImportCommand \<Rightarrow> string \<Rightarrow> (go_error + App) traced" where
  "fetchAppByClientAppID env ic clientAppID =
     emit EvStitchClient
       (case fetch_StitchClient env of
          Some err \<Rightarrow> halt (Inl err)
        | None \<Rightarrow>
            if flagGroupID ic = [] then
              emit (EvFetchAppByClientAppID clientAppID) (halt (api_FetchAppByClientAppID env))
            else
              emit (EvFetchAppByGroupIDAndClientAppID (flagGroupID ic) clientAppID)
                (halt (api_FetchAppByGroupIDAndClientAppID env)))"

text \<open>
  The prompt loop of \<^verbatim>\<open>resolveGroupID\<close> (lines 380-408), one iteration for each answer.
  \<open>None\<close>: the answers are used up and the loop is still asking.
\<close>

fun askProject ::
  "env \<Rightarrow> (string \<times> string) list \<Rightarrow> string \<Rightarrow> (string + string) list \<Rightarrow> (string + string) option traced"
where
  "askProject env groupsByName dflt [] =
     emit (EvAsk ''Atlas Project Name or ID'' dflt) (halt None)"
| "askProject env groupsByName dflt (answer # answers) =
     emit (EvAsk ''Atlas Project Name or ID'' dflt)
       (case answer of
          Inl err \<Rightarrow> halt (Some (Inl err))
        | Inr projectResponse \<Rightarrow>
            if isObjectIDHex projectResponse then halt (Some (Inr projectResponse))
            else
              let groupID = (case map_of groupsByName projectResponse of None \<Rightarrow> [] | Some g \<Rightarrow> g) in
              if groupID \<noteq> [] then halt (Some (Inr groupID))
              else
                emit (EvGroupByName projectResponse)
                  (case atlas_GroupByName env projectResponse of
                     Inl err \<Rightarrow> halt (Some (Inl err))
                   | Inr groupFromName \<Rightarrow>
                       if Group_ID groupFromName \<noteq> [] then halt (Some (Inr (Group_ID groupFromName)))
                       else
                         emit (EvUIInfo ''Could not understand response, please try again'')
                           (askProject env groupsByName dflt answers)))"

text \<open>
  \<^verbatim>\<open>resolveGroupID\<close> (lines 350-411).  \<^verbatim>\<open>groups[0]\<close> is read only after the map built from
  \<^verbatim>\<open>groups\<close> was found non-empty.
\<close>

definition resolveGroupID :: "env \<Rightarrow> ImportCommand \<Rightarrow> (string + string) option traced" where
  "resolveGroupID env ic =
     (if flagGroupID ic \<noteq> [] then halt (Some (Inr (flagGroupID ic)))
      else
        emit EvAtlasClient
          (case base_AtlasClient env of
             Some err \<Rightarrow> halt (Some (Inl (''an unexpected error occurred: '' @ err)))
           | None \<Rightarrow>
               emit EvGroups
                 (case atlas_Groups env of
                    Inl err \<Rightarrow> halt (Some (Inl err))
                  | Inr groups \<Rightarrow>
                      let groupsByName =
                            fold (\<lambda>group m. AList.update (Group_Name group) (Group_ID group) m) groups [] in
                      if length groupsByName = 0 then halt (Some (Inl ''no available Projects''))
                      else
                        emit (EvUIInfo ''Available Projects:'')
                          (emits (map (\<lambda>(name, id). EvUIInfo (name @ '' - '' @ id)) (mapRange env groupsByName))
                             (askProject env groupsByName (Group_Name (hd groups)) (project_Ask env))))))"

text \<open>
  \<^verbatim>\<open>askCreateEmptyApp\<close> (lines 413-465) returns \<^verbatim>\<open>(app, wantedNewApp, err)\<close>, in one of three
  shapes: \<^verbatim>\<open>(nil, false, err)\<close> is \<open>Inl err\<close>, \<^verbatim>\<open>(nil, false, nil)\<close> is \<open>Inr None\<close> and
  \<^verbatim>\<open>(app, true, nil)\<close> is \<open>Inr (Some app)\<close>.  The outer \<open>None\<close> is the unfinished project
  prompt.
\<close>

definition askCreateEmptyApp ::
  "env \<Rightarrow> ImportCommand \<Rightarrow> string \<Rightarrow> string \<Rightarrow> string \<Rightarrow> string \<Rightarrow> (string + App option) option traced"
where
  "askCreateEmptyApp env ic query defaultAppName0 defaultLocation defaultDeploymentModel =
     (let defaultAppName = (if flagAppName ic \<noteq> [] then flagAppName ic else defaultAppName0) in
      emit (EvAskYesNo (query @ '': would you like to create a new app?''))
        (case create_AskYesNo env of
           Inl err \<Rightarrow> halt (Some (Inl err))
         | Inr confirm \<Rightarrow>
             if \<not> confirm then halt (Some (Inr None))
             else
               emit (EvAsk ''App name'' defaultAppName)
                 (case appName_Ask env of
                    Inl err \<Rightarrow> halt (Some (Inl err))
                  | Inr appName \<Rightarrow>
                      let g = resolveGroupID env ic in
                      emits (trace g)
                        (case out g of
                           None \<Rightarrow> halt None
                         | Some (Inl err) \<Rightarrow> halt (Some (Inl err))
                         | Some (Inr groupID) \<Rightarrow>
                             emit (EvFetchAppsByGroupID groupID)
                               (case api_FetchAppsByGroupID env of
                                  Inl err \<Rightarrow> halt (Some (Inl err))
                                | Inr apps \<Rightarrow>
                                    if list_ex (\<lambda>app. Name app = appName) apps then
                                      halt (Some (Inl (''app already exists with name '' @ fmtQ env appName)))
                                    else
                                      emit (EvAskWithOptions ''Location'' defaultLocation locationOptions)
                                        (case location_AskWithOptions env of
                                           Inl err \<Rightarrow> halt (Some (Inl err))
                                         | Inr location \<Rightarrow>
                                             emit (EvAskWithOptions ''Deployment Model'' defaultDeploymentModel
                                                     deploymentModelOptions)
                                               (case deployment_AskWithOptions env of
                                                  Inl err \<Rightarrow> halt (Some (Inl err))
                                                | Inr deploymentModel \<Rightarrow>
                                                    emit (EvCreateEmptyApp groupID appName location deploymentModel)
                                                      (case api_CreateEmptyApp env of
                                                         Inl err \<Rightarrow> halt (Some (Inl err))
                                                       | Inr app \<Rightarrow>
                                                           emit (EvUIInfo (''New app created: '' @ ClientAppID app))
                                                             (halt (Some (Inr (Some app))))))))))))"

text \<open>\<^verbatim>\<open>resolveAppDirectory\<close> (lines 467-481).\<close>

definition resolveAppDirectory :: "env \<Rightarrow> ImportCommand \<Rightarrow> (string + string) traced" where
  "resolveAppDirectory env ic =
     (if flagAppPath ic \<noteq> [] then
        emit (EvHomedirExpand (flagAppPath ic))
          (case homedir_Expand env of
             Inl err \<Rightarrow> halt (Inl err)
           | Inr path \<Rightarrow>
               emit (EvStat path)
                 (case os_Stat env of
                    Some err \<Rightarrow> halt (Inl ''directory does not exist'')
                  | None \<Rightarrow> halt (Inr path)))
      else
        emit (EvGetDirectoryContainingFile (workingDirectory ic))
          (halt (utils_GetDirectoryContainingFile env)))"

text \<open>\<^verbatim>\<open>resolveAppInstanceData\<close> (lines 485-504).\<close>

definition resolveAppInstanceData :: "env \<Rightarrow> ImportCommand \<Rightarrow> string \<Rightarrow> (string + AppInstanceData) traced" where
  "resolveAppInstanceData env ic path =
     emit (EvUnmarshalFile path)
       (case inst_UnmarshalFile env of
          NotExist err \<Rightarrow> halt (Inr [(AppIDField env, flagAppID ic)])
        | ReadError err \<Rightarrow> halt (Inl err)
        | ReadOk appInstanceDataFromFile \<Rightarrow>
            if flagAppID ic \<noteq> [] then
              halt (Inr (AList.update (AppIDField env) (flagAppID ic) appInstanceDataFromFile))
            else halt (Inr appInstanceDataFromFile))"

subsection \<open>\<^verbatim>\<open>importApp\<close> (lines 157-335)\<close>

text \<open>
  What \<^verbatim>\<open>importApp\<close> assigns while it runs: the strategy flag of the command (line 210),
  \<^verbatim>\<open>skipDiff\<close> (line 209) and \<^verbatim>\<open>assetMetadataDiffs\<close> (line 271); the latter two hold
  their zero values until then.
\<close>

record state =
  cmd :: ImportCommand
  skipDiff :: bool
  assetMetadataDiffs :: "AssetMetadataDiffs option"

text \<open>
  \<open>Returned None\<close> is \<^verbatim>\<open>return nil\<close>, \<open>Returned (Some e)\<close> returns the error \<open>e\<close>, and
  \<open>Blocked\<close> is a run that has not returned (the project prompt is still asking).
\<close>

datatype outcome = Returned "string option" | Blocked

record result =
  ret :: outcome
  final :: state

definition returns :: "state \<Rightarrow> string option \<Rightarrow> result traced" where
  "returns s e = halt \<lparr>ret = Returned e, final = s\<rparr>"

text \<open>
  The function is one long body; it is cut here where its comments and blank lines cut it,
  each part ending in a call of the next.  Lines 320-335: the re-fetch and the write-back.
  The deferred \<^verbatim>\<open>body.Close()\<close> runs when the function returns.
\<close>

definition reSync :: "env \<Rightarrow> state \<Rightarrow> string \<Rightarrow> App \<Rightarrow> result traced" where
  "reSync env s appPath app =
     emit (EvExport (GroupID app) (ID app) False)
       (case api_Export env of
          Inl err \<Rightarrow> returns s (Some (errImportAppSyncFailure err))
        | Inr body \<Rightarrow>
            emit (EvWriteToDirectory appPath body True)
              (case writeToDirectory env of
                 Some err \<Rightarrow> emit EvCloseBody (returns s (Some (errImportAppSyncFailure err)))
               | None \<Rightarrow>
                   emit (EvUIInfo (''Successfully imported '' @ [CHR 0x27] @ ClientAppID app @ [CHR 0x27]))
                     (emit EvCloseBody (returns s None))))"

text \<open>Lines 306-318: the push, then the hosting assets.\<close>

definition applyImport :: "env \<Rightarrow> state \<Rightarrow> string \<Rightarrow> string \<Rightarrow> string \<Rightarrow> App \<Rightarrow> result traced" where
  "applyImport env s appPath rootDir appData app =
     emit (EvUIInfo ''Importing app...'')
       (emit (EvImport (GroupID app) (ID app) appData (flagStrategy (cmd s)))
          (case api_Import env of
             Some importErr \<Rightarrow> returns s (Some (errImportFailure importErr))
           | None \<Rightarrow>
               emit (EvUIInfo ''Done.'')
                 (if flagIncludeHosting (cmd s) \<and> assetMetadataDiffs s \<noteq> None then
                    emit (EvUIInfo ''Importing hosting assets...'')
                      (emit (EvImportHosting (GroupID app) (ID app) rootDir (flagResetCDNCache (cmd s)))
                         (case ImportHosting env of
                            Some hostingImportErr \<Rightarrow>
                              returns s (Some (errHostingImportFailure hostingImportErr))
                          | None \<Rightarrow> emit (EvUIInfo ''Done.'') (reSync env s appPath app)))
                  else reSync env s appPath app)))"

text \<open>Lines 274-304: the diff and the confirmation.\<close>

definition confirmPrompt :: string where
  "confirmPrompt = ''Please confirm the changes shown above:''"

definition nothingToDo :: string where
  "nothingToDo = ''Deployed app is identical to proposed version, nothing to do.''"

definition combinedDiff :: "state \<Rightarrow> string list \<Rightarrow> string list" where
  "combinedDiff s diffs =
     (if flagIncludeHosting (cmd s) \<and> assetMetadataDiffs s \<noteq> None then
        (case assetMetadataDiffs s of Some d \<Rightarrow> diffs @ hostingDiff d | None \<Rightarrow> diffs)
      else diffs)"

definition diffAndConfirm :: "env \<Rightarrow> state \<Rightarrow> string \<Rightarrow> string \<Rightarrow> string \<Rightarrow> App \<Rightarrow> result traced" where
  "diffAndConfirm env s appPath rootDir appData app =
     (if \<not> flagYes (cmd s) \<and> \<not> skipDiff s then
        emit (EvDiff (GroupID app) (ID app) appData (flagStrategy (cmd s)))
          (case api_Diff env of
             Inl diffErr \<Rightarrow>
               returns s (Some (''failed to diff app with currently deployed instance: '' @ diffErr))
           | Inr diffs0 \<Rightarrow>
               let diffs = combinedDiff s diffs0 in
               if length diffs = 0 then emit (EvUIInfo nothingToDo) (returns s None)
               else
                 emits (map EvUIInfo diffs)
                   (emit (EvAskYesNo confirmPrompt)
                      (case confirm_AskYesNo env of
                         Inl askErr \<Rightarrow> returns s (Some askErr)
                       | Inr confirm \<Rightarrow>
                           if \<not> confirm then returns s None
                           else applyImport env s appPath rootDir appData app)))
      else applyImport env s appPath rootDir appData app)"

text \<open>Lines 266-272: the remote asset listing and the asset diff.\<close>

definition listRemoteAssets :: "env \<Rightarrow> state \<Rightarrow> string \<Rightarrow> string \<Rightarrow> string \<Rightarrow> App \<Rightarrow> result traced" where
  "listRemoteAssets env s appPath rootDir appData app =
     emit (EvListAssetsForAppID (GroupID app) (ID app))
       (case api_ListAssetsForAppID env of
          Some rAMErr \<Rightarrow> returns s (Some (errIncludeHosting (''error retrieving remote assets: '' @ rAMErr)))
        | None \<Rightarrow>
            let merge = (flagStrategy (cmd s) = importStrategyMerge) in
            emit (EvDiffAssetMetadata merge)
              (diffAndConfirm env (s\<lparr>assetMetadataDiffs := hosting_DiffAssetMetadata env merge\<rparr>)
                 appPath rootDir appData app))"

text \<open>Lines 253-264: hashing the local assets and saving the cache when it is dirty.\<close>

definition hashLocalAssets ::
  "env \<Rightarrow> state \<Rightarrow> string \<Rightarrow> string \<Rightarrow> string \<Rightarrow> AppInstanceData \<Rightarrow> string \<Rightarrow> App \<Rightarrow> result traced"
where
  "hashLocalAssets env s appPath rootDir cachePath appInstanceData appData app =
     emit (EvListLocalAssetMetadata (inst_AppID env appInstanceData) rootDir)
       (case hosting_ListLocalAssetMetadata env of
          Inl aMErr \<Rightarrow>
            returns s (Some (errIncludeHosting (''error processing local assets '' @ rootDir @ '': '' @ aMErr)))
        | Inr dirty \<Rightarrow>
            if dirty then
              emit (EvUpdateCacheFile cachePath)
                (case hosting_UpdateCacheFile env of
                   Some uError \<Rightarrow> emit (EvUIError uError) (listRemoteAssets env s appPath rootDir appData app)
                 | None \<Rightarrow> listRemoteAssets env s appPath rootDir appData app)
            else listRemoteAssets env s appPath rootDir appData app)"

text \<open>Lines 229-251: the hosting directory, the asset descriptions and the asset cache.\<close>

definition prepareAssets ::
  "env \<Rightarrow> state \<Rightarrow> string \<Rightarrow> AppInstanceData \<Rightarrow> string \<Rightarrow> App \<Rightarrow> result traced"
where
  "prepareAssets env s appPath appInstanceData appData app =
     emit (EvFilepathAbs (filepathJoin env appPath (HostingFilesDirectory env)))
       (case filepath_Abs env of
          Inl dirErr \<Rightarrow> returns s (Some dirErr)
        | Inr rootDir \<Rightarrow>
            if flagIncludeHosting (cmd s) then
              emit (EvMetadataFileToAssetDescriptions (filepathJoin env appPath (HostingAttributes env)))
                (case hosting_MetadataFileToAssetDescriptions env of
                   Some fileErr \<Rightarrow>
                     returns s (Some (errIncludeHosting (''error loading metadata.json file: '' @ fileErr)))
                 | None \<Rightarrow>
                     emit (EvGetAssetCachePath (flagConfigPath (cmd s)))
                       (case getAssetCachePath env of
                          Inl cPErr \<Rightarrow> returns s (Some cPErr)
                        | Inr cachePath \<Rightarrow>
                            emit (EvCacheFileToAssetCache cachePath)
                              (case hosting_CacheFileToAssetCache env of
                                 ReadError cErr \<Rightarrow> returns s (Some cErr)
                               | NotExist cErr \<Rightarrow>
                                   emit EvNewAssetCache
                                     (hashLocalAssets env s appPath rootDir cachePath appInstanceData appData app)
                               | ReadOk assetCache \<Rightarrow>
                                   hashLocalAssets env s appPath rootDir cachePath appInstanceData appData app)))
            else diffAndConfirm env s appPath rootDir appData app)"

text \<open>Lines 206-227: the application was not found.\<close>

definition createNewApp ::
  "env \<Rightarrow> state \<Rightarrow> string \<Rightarrow> AppInstanceData \<Rightarrow> string \<Rightarrow> string \<Rightarrow> result traced"
where
  "createNewApp env s0 appPath appInstanceData appData query =
     (let s = s0\<lparr>skipDiff := True, cmd := (cmd s0)\<lparr>flagStrategy := importStrategyReplace\<rparr>\<rparr>;
          asked = askCreateEmptyApp env (cmd s) query (inst_AppName env appInstanceData)
                    (inst_AppLocation env appInstanceData) (inst_AppDeploymentModel env appInstanceData) in
      emits (trace asked)
        (case out asked of
           None \<Rightarrow> halt \<lparr>ret = Blocked, final = s\<rparr>
         | Some (Inl err) \<Rightarrow> returns s (Some err)
         | Some (Inr None) \<Rightarrow> returns s None
         | Some (Inr (Some app)) \<Rightarrow>
             let appInstanceData' =
                   AList.update (AppNameField env) (Name app)
                     (AList.update (AppIDField env) (ClientAppID app) appInstanceData) in
             emit (EvWriteAppConfigToFile appPath appInstanceData')
               (case writeAppConfigToFile env of
                  Some writeErr \<Rightarrow> returns s (Some (errCreateAppSyncFailure writeErr))
                | None \<Rightarrow> prepareAssets env s appPath appInstanceData' appData app)))"

text \<open>Lines 192-204: the lookup of the application and the type switch on its error.\<close>

definition resolveTarget ::
  "env \<Rightarrow> state \<Rightarrow> string \<Rightarrow> AppInstanceData \<Rightarrow> string \<Rightarrow> result traced"
where
  "resolveTarget env s appPath appInstanceData appData =
     (let fetched = fetchAppByClientAppID env (cmd s) (inst_AppID env appInstanceData) in
      emits (trace fetched)
        (case out fetched of
           Inr app \<Rightarrow> prepareAssets env s appPath appInstanceData appData app
         | Inl (ErrAppNotFound m) \<Rightarrow>
             createNewApp env s appPath appInstanceData appData
               (if inst_AppID env appInstanceData = [] then ''this app does not exist yet''
                else Error (ErrAppNotFound m))
         | Inl (ErrOther m) \<Rightarrow> returns s (Some (Error (ErrOther m)))))"

text \<open>
  Lines 158-190: the user, the directory, the instance data and the declaration; what they
  yield is \<^verbatim>\<open>appPath\<close>, \<^verbatim>\<open>appInstanceData\<close> and \<^verbatim>\<open>appData\<close>.
\<close>

definition loadLocal :: "env \<Rightarrow> ImportCommand \<Rightarrow> (string + string \<times> AppInstanceData \<times> string) traced" where
  "loadLocal env ic =
     emit EvUser
       (case base_User env of
          Inl err \<Rightarrow> halt (Inl err)
        | Inr loggedIn \<Rightarrow>
            if \<not> loggedIn then halt (Inl (ErrNotLoggedIn env))
            else
              let dir = resolveAppDirectory env ic in
              emits (trace dir)
                (case out dir of
                   Inl err \<Rightarrow> halt (Inl err)
                 | Inr appPath \<Rightarrow>
                     let inst = resolveAppInstanceData env ic appPath in
                     emits (trace inst)
                       (case out inst of
                          Inl err \<Rightarrow> halt (Inl err)
                        | Inr appInstanceData \<Rightarrow>
                            emit (EvUnmarshalFromDir appPath)
                              (case utils_UnmarshalFromDir env of
                                 Inl err \<Rightarrow> halt (Inl err)
                               | Inr loadedApp \<Rightarrow>
                                   emit EvJsonMarshal
                                     (case json_Marshal env of
                                        Inl err \<Rightarrow> halt (Inl err)
                                      | Inr appData \<Rightarrow>
                                          emit EvStitchClient
                                            (case base_StitchClient env of
                                               Some err \<Rightarrow> halt (Inl err)
                                             | None \<Rightarrow> halt (Inr (appPath, appInstanceData, appData))))))))"

definition importApp :: "env \<Rightarrow> ImportCommand \<Rightarrow> result traced" where
  "importApp env ic =
     (let s = \<lparr>cmd = ic, skipDiff = False, assetMetadataDiffs = None\<rparr>;
          loaded = loadLocal env ic in
      emits (trace loaded)
        (case out loaded of
           Inl err \<Rightarrow> returns s (Some err)
         | Inr (appPath, appInstanceData, appData) \<Rightarrow>
             resolveTarget env s appPath appInstanceData appData))"

subsection \<open>\<^verbatim>\<open>Run\<close> (lines 128-155)\<close>

text \<open>
  \<^verbatim>\<open>BaseCommand.run\<close> parses the arguments into the variables the flag set was given.  Its
  result is taken as it is: for each flag the value found on the command line, if any, and
  the error, if any.  A flag that is absent leaves the default of its registration, which for
  the strategy is \<^verbatim>\<open>importStrategyMerge\<close> (line 135).
\<close>

record parsed =
  argAppID :: "string option"
  argPath :: "string option"
  argProjectID :: "string option"
  argAppName :: "string option"
  argStrategy :: "string option"
  argIncludeHosting :: "bool option"
  argResetCDNCache :: "bool option"
  argYes :: bool
  argConfigPath :: string
  runError :: "string option"

definition orDefault :: "'a option \<Rightarrow> 'a \<Rightarrow> 'a" where
  "orDefault a d = (case a of None \<Rightarrow> d | Some v \<Rightarrow> v)"

definition parseFlags :: "string \<Rightarrow> parsed \<Rightarrow> ImportCommand" where
  "parseFlags wd args =
     \<lparr>workingDirectory = wd,
      flagAppID = orDefault (argAppID args) [],
      flagAppPath = orDefault (argPath args) [],
      flagAppName = orDefault (argAppName args) [],
      flagGroupID = orDefault (argProjectID args) [],
      flagStrategy = orDefault (argStrategy args) importStrategyMerge,
      flagIncludeHosting = orDefault (argIncludeHosting args) False,
      flagResetCDNCache = orDefault (argResetCDNCache args) False,
      flagYes = argYes args,
      flagConfigPath = argConfigPath args\<rparr>"

definition unknownStrategy :: "env \<Rightarrow> string \<Rightarrow> string" where
  "unknownStrategy env strategy =
     ''unknown import strategy '' @ fmtQ env strategy @ ''; accepted values are ['' @
       importStrategyMerge @ ''|'' @ importStrategyReplace @ '']''"

text \<open>The exit code, \<open>None\<close> while \<^verbatim>\<open>importApp\<close> has not returned.\<close>

definition Run :: "env \<Rightarrow> string \<Rightarrow> parsed \<Rightarrow> int option traced" where
  "Run env wd args =
     (let ic = parseFlags wd args in
      emit EvBaseRun
        (case runError args of
           Some err \<Rightarrow> emit (EvUIError err) (halt (Some 1))
         | None \<Rightarrow>
             if flagStrategy ic \<noteq> importStrategyMerge \<and> flagStrategy ic \<noteq> importStrategyReplace then
               emit (EvUIError (unknownStrategy env (flagStrategy ic))) (halt (Some 1))
             else
               let r = importApp env ic in
               emits (trace r)
                 (case ret (out r) of
                    Blocked \<Rightarrow> halt None
                  | Returned (Some err) \<Rightarrow> emit (EvUIError err) (halt (Some 1))
                  | Returned None \<Rightarrow> halt (Some 0))))"

section \<open>Vocabulary of the properties\<close>

subsection \<open>Classes of events\<close>

text \<open>
  The events of lines 158-204 (loading the declaration and looking the application up), of
  lines 206-227 and \<^verbatim>\<open>askCreateEmptyApp\<close> (creating an application; its prompt is never the
  confirmation prompt of line 296) and of lines 229-272 (preparing the assets).
\<close>

fun isLoadEvent :: "event \<Rightarrow> bool" where
  "isLoadEvent EvUser = True"
| "isLoadEvent (EvHomedirExpand _) = True"
| "isLoadEvent (EvStat _) = True"
| "isLoadEvent (EvGetDirectoryContainingFile _) = True"
| "isLoadEvent (EvUnmarshalFile _) = True"
| "isLoadEvent (EvUnmarshalFromDir _) = True"
| "isLoadEvent EvJsonMarshal = True"
| "isLoadEvent EvStitchClient = True"
| "isLoadEvent (EvFetchAppByClientAppID _) = True"
| "isLoadEvent (EvFetchAppByGroupIDAndClientAppID _ _) = True"
| "isLoadEvent _ = False"

fun isCreateEvent :: "event \<Rightarrow> bool" where
  "isCreateEvent (EvAskYesNo p) = (p \<noteq> confirmPrompt)"
| "isCreateEvent (EvAsk _ _) = True"
| "isCreateEvent (EvAskWithOptions _ _ _) = True"
| "isCreateEvent EvAtlasClient = True"
| "isCreateEvent EvGroups = True"
| "isCreateEvent (EvGroupByName _) = True"
| "isCreateEvent (EvFetchAppsByGroupID _) = True"
| "isCreateEvent (EvCreateEmptyApp _ _ _ _) = True"
| "isCreateEvent (EvUIInfo _) = True"
| "isCreateEvent (EvWriteAppConfigToFile _ _) = True"
| "isCreateEvent _ = False"

fun isPrepEvent :: "event \<Rightarrow> bool" where
  "isPrepEvent (EvFilepathAbs _) = True"
| "isPrepEvent (EvMetadataFileToAssetDescriptions _) = True"
| "isPrepEvent (EvGetAssetCachePath _) = True"
| "isPrepEvent (EvCacheFileToAssetCache _) = True"
| "isPrepEvent EvNewAssetCache = True"
| "isPrepEvent (EvListLocalAssetMetadata _ _) = True"
| "isPrepEvent (EvUpdateCacheFile _) = True"
| "isPrepEvent (EvUIError _) = True"
| "isPrepEvent (EvListAssetsForAppID _ _) = True"
| "isPrepEvent (EvDiffAssetMetadata _) = True"
| "isPrepEvent _ = False"

text \<open>
  What touches asset state, what changes the remote side (creating the application, the push,
  the upload and deletion of assets), and the steps the properties single out.
\<close>

fun isAssetEvent :: "event \<Rightarrow> bool" where
  "isAssetEvent (EvMetadataFileToAssetDescriptions _) = True"
| "isAssetEvent (EvGetAssetCachePath _) = True"
| "isAssetEvent (EvCacheFileToAssetCache _) = True"
| "isAssetEvent EvNewAssetCache = True"
| "isAssetEvent (EvListLocalAssetMetadata _ _) = True"
| "isAssetEvent (EvUpdateCacheFile _) = True"
| "isAssetEvent (EvListAssetsForAppID _ _) = True"
| "isAssetEvent (EvDiffAssetMetadata _) = True"
| "isAssetEvent (EvImportHosting _ _ _ _) = True"
| "isAssetEvent _ = False"

fun isRemoteMutation :: "event \<Rightarrow> bool" where
  "isRemoteMutation (EvCreateEmptyApp _ _ _ _) = True"
| "isRemoteMutation (EvImport _ _ _ _) = True"
| "isRemoteMutation (EvImportHosting _ _ _ _) = True"
| "isRemoteMutation _ = False"

fun isDiff :: "event \<Rightarrow> bool" where
  "isDiff (EvDiff _ _ _ _) = True"
| "isDiff _ = False"

fun isImport :: "event \<Rightarrow> bool" where
  "isImport (EvImport _ _ _ _) = True"
| "isImport _ = False"

fun isReSync :: "event \<Rightarrow> bool" where
  "isReSync (EvExport _ _ _) = True"
| "isReSync (EvWriteToDirectory _ _ _) = True"
| "isReSync _ = False"

fun strategyOf :: "event \<Rightarrow> string option" where
  "strategyOf (EvDiff _ _ _ strategy) = Some strategy"
| "strategyOf (EvImport _ _ _ strategy) = Some strategy"
| "strategyOf _ = None"

subsection \<open>States between the parts of \<^verbatim>\<open>importApp\<close>\<close>

text \<open>
  The state at line 158, the state after lines 209-210, and the state with which line 274 is
  reached from line 229.
\<close>

definition afterPrep :: "env \<Rightarrow> state \<Rightarrow> state" where
  "afterPrep env s =
     (if flagIncludeHosting (cmd s) then
        s\<lparr>assetMetadataDiffs := hosting_DiffAssetMetadata env (flagStrategy (cmd s) = importStrategyMerge)\<rparr>
      else s)"

definition notFound :: "state \<Rightarrow> state" where
  "notFound s = s\<lparr>skipDiff := True, cmd := (cmd s)\<lparr>flagStrategy := importStrategyReplace\<rparr>\<rparr>"

definition initial :: "ImportCommand \<Rightarrow> state" where
  "initial ic = \<lparr>cmd = ic, skipDiff = False, assetMetadataDiffs = None\<rparr>"

subsection \<open>A sample run\<close>

text \<open>
  A command line without flags, run in the directory of an application that exists remotely;
  every collaborator succeeds and the user confirms.  The properties are instantiated on
  variations of it.
\<close>

definition sampleApp :: App where
  "sampleApp = \<lparr>GroupID = ''5a0000000000000000000001'', ID = ''5b0000000000000000000002'',
                 ClientAppID = ''shop-abcde'', Name = ''shop''\<rparr>"

definition sampleLookup :: "string \<Rightarrow> AppInstanceData \<Rightarrow> string" where
  "sampleLookup k d = (case map_of d k of None \<Rightarrow> [] | Some v \<Rightarrow> v)"

definition sampleEnv :: env where
  "sampleEnv =
     \<lparr>ErrNotLoggedIn = ''you are not logged in'',
      AppIDField = ''app_id'',
      AppNameField = ''name'',
      HostingFilesDirectory = ''hosting/files'',
      HostingAttributes = ''hosting/metadata.json'',
      filepathJoin = (\<lambda>a b. a @ ''/'' @ b),
      inst_AppID = sampleLookup ''app_id'',
      inst_AppName = sampleLookup ''name'',
      inst_AppLocation = sampleLookup ''location'',
      inst_AppDeploymentModel = sampleLookup ''deployment_model'',
      fmtQ = (\<lambda>s. [CHR 0x22] @ s @ [CHR 0x22]),
      mapRange = (\<lambda>m. m),
      base_User = Inr True,
      homedir_Expand = Inr ''/home/dev/shop'',
      os_Stat = None,
      utils_GetDirectoryContainingFile = Inr ''/work/shop'',
      inst_UnmarshalFile = ReadOk [(''app_id'', ''shop-abcde''), (''name'', ''shop'')],
      utils_UnmarshalFromDir = Inr ''app'',
      json_Marshal = Inr ''{}'',
      base_StitchClient = None,
      fetch_StitchClient = None,
      api_FetchAppByClientAppID = Inr sampleApp,
      api_FetchAppByGroupIDAndClientAppID = Inr sampleApp,
      create_AskYesNo = Inr True,
      appName_Ask = Inr ''shop'',
      base_AtlasClient = None,
      atlas_Groups = Inr [\<lparr>Group_Name = ''Project0'', Group_ID = ''5a0000000000000000000001''\<rparr>],
      project_Ask = [Inr ''Project0''],
      atlas_GroupByName = (\<lambda>n. Inl ''no such project''),
      api_FetchAppsByGroupID = Inr [],
      location_AskWithOptions = Inr ''US-VA'',
      deployment_AskWithOptions = Inr ''GLOBAL'',
      api_CreateEmptyApp = Inr sampleApp,
      writeAppConfigToFile = None,
      filepath_Abs = Inr ''/work/shop/hosting/files'',
      hosting_MetadataFileToAssetDescriptions = None,
      getAssetCachePath = Inr ''/home/dev/.config/stitch/cache.json'',
      hosting_CacheFileToAssetCache = ReadOk (),
      hosting_ListLocalAssetMetadata = Inr True,
      hosting_UpdateCacheFile = None,
      api_ListAssetsForAppID = None,
      hosting_DiffAssetMetadata = (\<lambda>merge. Some (AssetMetadataDiffs [''+ index.html''])),
      api_Diff = Inr [''+ service http''],
      confirm_AskYesNo = Inr True,
      api_Import = None,
      ImportHosting = None,
      api_Export = Inr ''zip'',
      writeToDirectory = None\<rparr>"

definition sampleArgs :: parsed where
  "sampleArgs =
     \<lparr>argAppID = None, argPath = None, argProjectID = None, argAppName = None, argStrategy = None,
      argIncludeHosting = None, argResetCDNCache = None, argYes = False,
      argConfigPath = ''/home/dev/.config/stitch/stitch'', runError = None\<rparr>"

definition sampleCmd :: ImportCommand where
  "sampleCmd = parseFlags ''/work/shop'' sampleArgs"

definition badDeclarationEnv :: env where
  "badDeclarationEnv = sampleEnv\<lparr>utils_UnmarshalFromDir := Inl ''invalid character''\<rparr>"

fun isImportHosting :: "event \<Rightarrow> bool" where
  "isImportHosting (EvImportHosting _ _ _ _) = True"
| "isImportHosting _ = False"

fun isExport :: "event \<Rightarrow> bool" where
  "isExport (EvExport _ _ _) = True"
| "isExport _ = False"

text \<open>What the properties say of a run, as predicates on its trace and result.\<close>

definition skipsDiff :: "string \<Rightarrow> result traced \<Rightarrow> bool" where
  "skipsDiff strategy r =
     (skipDiff (final (out r)) \<and> flagStrategy (cmd (final (out r))) = strategy \<and>
      (\<forall>ev\<in>set (trace r).
         \<not> isDiff ev \<and> ev \<noteq> EvAskYesNo confirmPrompt \<and>
         (strategyOf ev = None \<or> strategyOf ev = Some strategy)))"

definition declined :: "result traced \<Rightarrow> bool" where
  "declined r =
     (EvAskYesNo confirmPrompt \<in> set (trace r) \<longrightarrow>
        ret (out r) = Returned None \<and> last (trace r) = EvAskYesNo confirmPrompt \<and>
        (\<forall>ev\<in>set (trace r). \<not> isRemoteMutation ev \<and> \<not> isReSync ev))"

definition notFoundEnv :: env where
  "notFoundEnv = sampleEnv\<lparr>api_FetchAppByClientAppID := Inl (ErrAppNotFound ''app not found'')\<rparr>"

definition decliningEnv :: env where
  "decliningEnv = sampleEnv\<lparr>confirm_AskYesNo := Inr False\<rparr>"

subsection \<open>What the later properties say of a run\<close>

fun isCreatePrompt :: "event \<Rightarrow> bool" where
  "isCreatePrompt (EvAskYesNo p) = (p \<noteq> confirmPrompt)"
| "isCreatePrompt _ = False"

definition noOp :: "string list \<Rightarrow> result traced \<Rightarrow> bool" where
  "noOp ds r =
     ((\<exists>ev\<in>set (trace r). isDiff ev) \<and> combinedDiff (final (out r)) ds = [] \<longrightarrow>
        ret (out r) = Returned None \<and> last (trace r) = EvUIInfo nothingToDo \<and>
        (\<forall>ev\<in>set (trace r). \<not> isRemoteMutation ev \<and> \<not> isReSync ev))"

definition pushFailed :: "string \<Rightarrow> result traced \<Rightarrow> bool" where
  "pushFailed e r =
     ((\<exists>ev\<in>set (trace r). isImport ev) \<longrightarrow>
        ret (out r) = Returned (Some (errImportFailure e)) \<and> isImport (last (trace r)) \<and>
        (\<forall>ev\<in>set (trace r). \<not> isImportHosting ev \<and> \<not> isReSync ev))"

definition syncFailed :: "env \<Rightarrow> string \<Rightarrow> result traced \<Rightarrow> bool" where
  "syncFailed env e r =
     ((\<exists>ev\<in>set (trace r). isExport ev) \<longrightarrow>
        ret (out r) = Returned (Some (errImportAppSyncFailure e)) \<and>
        api_Import env = None \<and> (\<exists>ev\<in>set (trace r). isImport ev))"

definition createDeclined :: "result traced \<Rightarrow> bool" where
  "createDeclined r =
     ((\<exists>ev\<in>set (trace r). isCreatePrompt ev) \<longrightarrow>
        ret (out r) = Returned None \<and> (\<forall>ev\<in>set (trace r). \<not> isRemoteMutation ev \<and> \<not> isReSync ev))"

subsection \<open>More sample runs\<close>

definition emptyDiffEnv :: env where
  "emptyDiffEnv = sampleEnv\<lparr>api_Diff := Inr []\<rparr>"

definition pushFailEnv :: env where
  "pushFailEnv = sampleEnv\<lparr>api_Import := Some ''remote rejected the app''\<rparr>"

definition exportFailEnv :: env where
  "exportFailEnv = sampleEnv\<lparr>api_Export := Inl ''connection reset''\<rparr>"

definition writeBackFailEnv :: env where
  "writeBackFailEnv = sampleEnv\<lparr>writeToDirectory := Some ''permission denied''\<rparr>"

definition createDecliningEnv :: env where
  "createDecliningEnv = notFoundEnv\<lparr>create_AskYesNo := Inr False\<rparr>"

definition badStrategyArgs :: parsed where
  "badStrategyArgs = sampleArgs\<lparr>argStrategy := Some ''overwrite''\<rparr>"

definition replaceArgs :: parsed where
  "replaceArgs = sampleArgs\<lparr>argStrategy := Some ''replace''\<rparr>"

section \<open>Properties\<close>

subsection \<open>Traces and the shape of a run\<close>

lemmas run_defs =
  importApp_def loadLocal_def resolveAppDirectory_def resolveAppInstanceData_def resolveTarget_def
  fetchAppByClientAppID_def createNewApp_def askCreateEmptyApp_def resolveGroupID_def
  prepareAssets_def hashLocalAssets_def listRemoteAssets_def diffAndConfirm_def combinedDiff_def
  applyImport_def reSync_def Let_def

lemmas sample_defs =
  sampleEnv_def sampleCmd_def sampleArgs_def sampleApp_def sampleLookup_def parseFlags_def orDefault_def
  importStrategyMerge_def importStrategyReplace_def

lemma trace_emit [simp]: "trace (emit ev r) = ev # trace r" by (simp add: emit_def)
lemma out_emit [simp]: "out (emit ev r) = out r" by (simp add: emit_def)
lemma trace_emits [simp]: "trace (emits evs r) = evs @ trace r" by (simp add: emits_def)
lemma out_emits [simp]: "out (emits evs r) = out r" by (simp add: emits_def)
lemma trace_halt [simp]: "trace (halt x) = []" by (simp add: halt_def)
lemma out_halt [simp]: "out (halt x) = x" by (simp add: halt_def)
lemma trace_returns [simp]: "trace (returns s e) = []" by (simp add: returns_def)
lemma out_returns [simp]: "out (returns s e) = \<lparr>ret = Returned e, final = s\<rparr>" by (simp add: returns_def)

lemma emits_Nil [simp]: "emits [] r = r" by (simp add: emits_def)
lemma emits_Cons: "emits (ev # evs) r = emit ev (emits evs r)" by (simp add: emits_def emit_def)

lemma emits_stable:
  assumes "\<And>ev r. P ev \<Longrightarrow> Q r \<Longrightarrow> Q (emit ev r)" and "Q r" and "\<forall>ev\<in>set evs. P ev"
  shows "Q (emits evs r)"
  using assms(3) by (induction evs) (simp_all add: emits_Cons assms(1,2))

lemma create_prompt_neq: "query @ '': would you like to create a new app?'' \<noteq> confirmPrompt"
proof
  assume "query @ '': would you like to create a new app?'' = confirmPrompt"
  then have "last (query @ '': would you like to create a new app?'') = last confirmPrompt"
    by simp
  then show False by (simp add: confirmPrompt_def)
qed

lemma loadLocal_events: "ev \<in> set (trace (loadLocal env ic)) \<Longrightarrow> isLoadEvent ev"
  by (auto simp: loadLocal_def resolveAppDirectory_def resolveAppInstanceData_def Let_def
      split: sum.splits option.splits if_splits file_read.splits)

lemma fetch_events: "ev \<in> set (trace (fetchAppByClientAppID env ic c)) \<Longrightarrow> isLoadEvent ev"
  by (auto simp: fetchAppByClientAppID_def split: option.splits if_splits)

lemma askProject_events: "ev \<in> set (trace (askProject env m d answers)) \<Longrightarrow> isCreateEvent ev"
  by (induction answers) (auto simp: Let_def split: sum.splits if_splits)

lemma resolveGroupID_events: "ev \<in> set (trace (resolveGroupID env ic)) \<Longrightarrow> isCreateEvent ev"
  by (auto simp: resolveGroupID_def Let_def dest: askProject_events split: sum.splits option.splits if_splits)

lemma askCreateEmptyApp_events:
  "ev \<in> set (trace (askCreateEmptyApp env ic q n l d)) \<Longrightarrow> isCreateEvent ev"
  by (auto simp: askCreateEmptyApp_def Let_def create_prompt_neq dest: resolveGroupID_events
      split: sum.splits option.splits if_splits)


lemma prepareAssets_rule:
  assumes stable: "\<And>ev r. isPrepEvent ev \<Longrightarrow> Q r \<Longrightarrow> Q (emit ev r)"
    and err: "\<And>e. Q (returns s (Some e))"
    and main: "\<And>rootDir. Q (diffAndConfirm env (afterPrep env s) appPath rootDir appData app)"
  shows "Q (prepareAssets env s appPath aid appData app)"
  using main
  by (auto simp: prepareAssets_def hashLocalAssets_def listRemoteAssets_def Let_def afterPrep_def
      split: sum.splits option.splits file_read.splits intro!: stable err)

lemma createNewApp_rule:
  assumes stable: "\<And>ev r. isCreateEvent ev \<Longrightarrow> Q r \<Longrightarrow> Q (emit ev r)"
    and rets: "\<And>e. Q (returns (notFound s) e)"
    and blocked: "Q (halt \<lparr>ret = Blocked, final = notFound s\<rparr>)"
    and main: "\<And>aid' app. Q (prepareAssets env (notFound s) appPath aid' appData app)"
  shows "Q (createNewApp env s appPath aid appData q)"
  unfolding createNewApp_def Let_def notFound_def [symmetric]
  by (rule emits_stable [where P = isCreateEvent])
     (auto simp: askCreateEmptyApp_events split: sum.splits option.splits intro!: stable rets blocked main)

lemma importApp_rule:
  assumes stable: "\<And>ev r. isLoadEvent ev \<Longrightarrow> Q r \<Longrightarrow> Q (emit ev r)"
    and early: "\<And>e. Q (returns (initial ic) (Some e))"
    and found: "\<And>appPath aid appData app. Q (prepareAssets env (initial ic) appPath aid appData app)"
    and created: "\<And>appPath aid appData q. Q (createNewApp env (initial ic) appPath aid appData q)"
  shows "Q (importApp env ic)"
proof -
  have target: "Q (resolveTarget env (initial ic) appPath aid appData)" for appPath aid appData
    unfolding resolveTarget_def Let_def
    by (rule emits_stable [where P = isLoadEvent])
       (auto simp: fetch_events split: sum.splits go_error.splits intro!: stable early found created)
  show ?thesis
    unfolding importApp_def Let_def initial_def [symmetric]
    by (rule emits_stable [where P = isLoadEvent])
       (auto simp: loadLocal_events split: sum.splits intro!: stable early target)
qed


lemma reSync_final [simp]: "final (out (reSync env s appPath app)) = s"
  by (simp add: reSync_def split: sum.splits option.splits)

lemma applyImport_final [simp]: "final (out (applyImport env s appPath rootDir appData app)) = s"
  by (simp add: applyImport_def split: sum.splits option.splits)

lemma diffAndConfirm_final [simp]: "final (out (diffAndConfirm env s appPath rootDir appData app)) = s"
  by (simp add: diffAndConfirm_def Let_def split: sum.splits option.splits)

lemma load_not_asset: "isLoadEvent ev \<Longrightarrow> \<not> isAssetEvent ev"
  by (cases ev) simp_all

lemma create_not_asset: "isCreateEvent ev \<Longrightarrow> \<not> isAssetEvent ev"
  by (cases ev) simp_all

lemma diffAndConfirm_no_assets:
  "\<not> flagIncludeHosting (cmd s) \<Longrightarrow> ev \<in> set (trace (diffAndConfirm env s appPath rootDir appData app))
    \<Longrightarrow> \<not> isAssetEvent ev"
  by (auto simp: diffAndConfirm_def applyImport_def reSync_def Let_def
      split: sum.splits option.splits if_splits)

lemma prepareAssets_no_assets:
  "\<not> flagIncludeHosting (cmd s) \<Longrightarrow> ev \<in> set (trace (prepareAssets env s appPath aid appData app))
    \<Longrightarrow> \<not> isAssetEvent ev"
  by (auto simp: prepareAssets_def dest: diffAndConfirm_no_assets split: sum.splits)

lemma prepareAssets_no_diffs:
  "\<not> flagIncludeHosting (cmd s) \<Longrightarrow>
     assetMetadataDiffs (final (out (prepareAssets env s appPath aid appData app))) = assetMetadataDiffs s"
  by (auto simp: prepareAssets_def split: sum.splits)

subsection \<open>The claims\<close>

text \<open>
  C10.  When asset sync is not requested (\<^verbatim>\<open>flagIncludeHosting\<close> is false), no event of a run
  touches asset state: the metadata file and the cache file are not read, the cache is not
  written, nothing is hashed, the remote assets are not listed or compared, no hosting import
  follows the push, and \<^verbatim>\<open>assetMetadataDiffs\<close> is still nil when the run ends.
\<close>

theorem C10_no_hosting_no_asset_state:
  assumes "\<not> flagIncludeHosting ic"
  shows "(\<forall>ev\<in>set (trace (importApp env ic)). \<not> isAssetEvent ev) \<and>
         assetMetadataDiffs (final (out (importApp env ic))) = None"
proof (rule importApp_rule)
  fix appPath aid appData q
  show "(\<forall>ev\<in>set (trace (createNewApp env (initial ic) appPath aid appData q)). \<not> isAssetEvent ev) \<and>
        assetMetadataDiffs (final (out (createNewApp env (initial ic) appPath aid appData q))) = None"
    by (rule createNewApp_rule)
       (use assms in \<open>auto simp: create_not_asset notFound_def initial_def prepareAssets_no_diffs
          dest: prepareAssets_no_assets [rotated]\<close>)
qed (use assms in \<open>auto simp: load_not_asset initial_def prepareAssets_no_diffs
       dest: prepareAssets_no_assets [rotated]\<close>)

theorem C10_witness:
  "\<not> flagIncludeHosting sampleCmd \<and>
   trace (importApp sampleEnv sampleCmd) \<noteq> [] \<and>
   filter isAssetEvent (trace (importApp sampleEnv sampleCmd)) = [] \<and>
   assetMetadataDiffs (final (out (importApp sampleEnv sampleCmd))) = None"
proof -
  have h: "\<not> flagIncludeHosting sampleCmd"
    by (simp add: sample_defs)
  have "EvUser \<in> set (trace (importApp sampleEnv sampleCmd))"
    by (simp add: importApp_def loadLocal_def Let_def)
  then have "trace (importApp sampleEnv sampleCmd) \<noteq> []"
    by auto
  with h C10_no_hosting_no_asset_state [OF h, of sampleEnv] show ?thesis
    by (simp add: filter_empty_conv)
qed

text \<open>
  C8.  When decoding the declaration directory fails (\<^verbatim>\<open>utils.UnmarshalFromDir\<close> returns an
  error), the run returns an error and no event of it is a remote mutation: no application was
  created, nothing was pushed and no asset was uploaded or deleted.  If the run gets to the
  decoding, the decoding is its last event and its error is the one returned.
\<close>

theorem C8_malformed_declaration_aborts:
  assumes "utils_UnmarshalFromDir env = Inl err"
  shows "(\<forall>ev\<in>set (trace (importApp env ic)). \<not> isRemoteMutation ev) \<and>
         (\<exists>e. ret (out (importApp env ic)) = Returned (Some e)) \<and>
         (\<forall>p. EvUnmarshalFromDir p \<in> set (trace (importApp env ic)) \<longrightarrow>
            ret (out (importApp env ic)) = Returned (Some err) \<and>
            last (trace (importApp env ic)) = EvUnmarshalFromDir p)"
  using assms
  by (auto simp: importApp_def loadLocal_def resolveAppDirectory_def resolveAppInstanceData_def Let_def
      split: sum.splits option.splits if_splits file_read.splits)

theorem C8_witness:
  "utils_UnmarshalFromDir badDeclarationEnv = Inl ''invalid character'' \<and>
   EvUnmarshalFromDir ''/work/shop'' \<in> set (trace (importApp badDeclarationEnv sampleCmd)) \<and>
   ret (out (importApp badDeclarationEnv sampleCmd)) = Returned (Some ''invalid character'') \<and>
   last (trace (importApp badDeclarationEnv sampleCmd)) = EvUnmarshalFromDir ''/work/shop'' \<and>
   filter isRemoteMutation (trace (importApp badDeclarationEnv sampleCmd)) = []"
proof -
  have h: "utils_UnmarshalFromDir badDeclarationEnv = Inl ''invalid character''"
    by (simp add: badDeclarationEnv_def)
  have t: "trace (importApp badDeclarationEnv sampleCmd) =
      [EvUser, EvGetDirectoryContainingFile ''/work/shop'', EvUnmarshalFile ''/work/shop'',
       EvUnmarshalFromDir ''/work/shop'']"
    by (simp add: badDeclarationEnv_def run_defs sample_defs)
  from C8_malformed_declaration_aborts [OF h, of sampleCmd] t h show ?thesis
    by simp
qed

lemma load_classes:
  "isLoadEvent ev \<Longrightarrow> \<not> isDiff ev \<and> \<not> isImport ev \<and> \<not> isReSync ev \<and> \<not> isRemoteMutation ev \<and>
     ev \<noteq> EvAskYesNo confirmPrompt \<and> strategyOf ev = None"
  by (cases ev) simp_all

lemma create_classes:
  "isCreateEvent ev \<Longrightarrow> \<not> isDiff ev \<and> \<not> isImport ev \<and> \<not> isReSync ev \<and>
     ev \<noteq> EvAskYesNo confirmPrompt \<and> strategyOf ev = None"
  by (cases ev) simp_all

lemma prep_classes:
  "isPrepEvent ev \<Longrightarrow> \<not> isDiff ev \<and> \<not> isImport ev \<and> \<not> isReSync ev \<and> \<not> isRemoteMutation ev \<and>
     ev \<noteq> EvAskYesNo confirmPrompt \<and> strategyOf ev = None"
  by (cases ev) simp_all

lemma skipsDiff_emit:
  "isLoadEvent ev \<or> isCreateEvent ev \<or> isPrepEvent ev \<Longrightarrow> skipsDiff st r \<Longrightarrow> skipsDiff st (emit ev r)"
  by (auto simp: skipsDiff_def dest: load_classes create_classes prep_classes)

lemma applyImport_events:
  "ev \<in> set (trace (applyImport env s appPath rootDir appData app)) \<Longrightarrow>
     \<not> isDiff ev \<and> ev \<noteq> EvAskYesNo confirmPrompt \<and>
     (strategyOf ev = None \<or> strategyOf ev = Some (flagStrategy (cmd s)))"
  by (auto simp: applyImport_def reSync_def split: sum.splits option.splits if_splits)

lemma diffAndConfirm_skipDiff:
  "skipDiff s \<Longrightarrow> diffAndConfirm env s appPath rootDir appData app = applyImport env s appPath rootDir appData app"
  by (simp add: diffAndConfirm_def)

lemma prepareAssets_skipsDiff:
  assumes "skipDiff s"
  shows "skipsDiff (flagStrategy (cmd s)) (prepareAssets env s appPath aid appData app)"
proof (rule prepareAssets_rule [where Q = "skipsDiff (flagStrategy (cmd s))"])
  show "skipsDiff (flagStrategy (cmd s)) (diffAndConfirm env (afterPrep env s) appPath rootDir appData app)"
    for rootDir
    using assms
    by (auto simp: skipsDiff_def afterPrep_def diffAndConfirm_skipDiff dest!: applyImport_events)
qed (use assms in \<open>simp_all add: skipsDiff_emit\<close>, simp add: skipsDiff_def)

lemma createNewApp_skipsDiff:
  "skipsDiff importStrategyReplace (createNewApp env s appPath aid appData q)"
proof (rule createNewApp_rule [where Q = "skipsDiff importStrategyReplace"])
  show "skipsDiff importStrategyReplace (prepareAssets env (notFound s) appPath aid' appData app)"
    for aid' app
    using prepareAssets_skipsDiff [of "notFound s" env appPath aid' appData app]
    by (simp add: notFound_def)
qed (simp_all add: skipsDiff_emit, simp_all add: skipsDiff_def notFound_def)

lemma importApp_not_found:
  assumes "out (loadLocal env ic) = Inr (appPath, aid, appData)"
    and "out (fetchAppByClientAppID env ic (inst_AppID env aid)) = Inl (ErrAppNotFound m)"
  shows "\<exists>pre q. (\<forall>ev\<in>set pre. isLoadEvent ev) \<and>
           importApp env ic = emits pre (createNewApp env (initial ic) appPath aid appData q)"
  using assms
  by (intro exI [of _ "trace (loadLocal env ic) @ trace (fetchAppByClientAppID env ic (inst_AppID env aid))"])
     (auto simp: importApp_def resolveTarget_def Let_def initial_def emits_def
        dest: loadLocal_events fetch_events)

lemma skipsDiff_emits:
  "\<forall>ev\<in>set pre. isLoadEvent ev \<Longrightarrow> skipsDiff st r \<Longrightarrow> skipsDiff st (emits pre r)"
  by (rule emits_stable [where P = isLoadEvent and Q = "skipsDiff st"]) (simp_all add: skipsDiff_emit)

text \<open>
  C1.  When the run gets to the lookup and the lookup reports the application as not found
  (an \<^verbatim>\<open>api.ErrAppNotFound\<close>), \<^verbatim>\<open>skipDiff\<close> is set and the strategy is \<^verbatim>\<open>replace\<close> when the run
  ends, whatever strategy was given; no event of the run is the diff call or the confirmation
  prompt, and every call that carries a strategy carries \<^verbatim>\<open>replace\<close>.
\<close>

theorem C1_app_not_found_forces_replace_and_skips_diff:
  assumes "out (loadLocal env ic) = Inr (appPath, aid, appData)"
    and "out (fetchAppByClientAppID env ic (inst_AppID env aid)) = Inl (ErrAppNotFound m)"
  shows "skipDiff (final (out (importApp env ic))) \<and>
         flagStrategy (cmd (final (out (importApp env ic)))) = importStrategyReplace \<and>
         (\<forall>ev\<in>set (trace (importApp env ic)).
            \<not> isDiff ev \<and> ev \<noteq> EvAskYesNo confirmPrompt \<and>
            (strategyOf ev = None \<or> strategyOf ev = Some importStrategyReplace))"
proof -
  from importApp_not_found [OF assms] obtain pre q where
    pre: "\<forall>ev\<in>set pre. isLoadEvent ev" and
    eq: "importApp env ic = emits pre (createNewApp env (initial ic) appPath aid appData q)"
    by blast
  have "skipsDiff importStrategyReplace (importApp env ic)"
    unfolding eq by (rule skipsDiff_emits [OF pre createNewApp_skipsDiff])
  then show ?thesis
    by (simp add: skipsDiff_def)
qed

theorem C1_witness:
  "out (loadLocal notFoundEnv sampleCmd) =
     Inr (''/work/shop'', [(''app_id'', ''shop-abcde''), (''name'', ''shop'')], ''{}'') \<and>
   out (fetchAppByClientAppID notFoundEnv sampleCmd
          (inst_AppID notFoundEnv [(''app_id'', ''shop-abcde''), (''name'', ''shop'')])) =
     Inl (ErrAppNotFound ''app not found'') \<and>
   flagStrategy sampleCmd = importStrategyMerge \<and>
   skipDiff (final (out (importApp notFoundEnv sampleCmd))) \<and>
   flagStrategy (cmd (final (out (importApp notFoundEnv sampleCmd)))) = importStrategyReplace \<and>
   EvImport ''5a0000000000000000000001'' ''5b0000000000000000000002'' ''{}'' importStrategyReplace
     \<in> set (trace (importApp notFoundEnv sampleCmd)) \<and>
   filter (\<lambda>ev. isDiff ev \<or> ev = EvAskYesNo confirmPrompt) (trace (importApp notFoundEnv sampleCmd)) = []"
proof -
  have h1: "out (loadLocal notFoundEnv sampleCmd) =
      Inr (''/work/shop'', [(''app_id'', ''shop-abcde''), (''name'', ''shop'')], ''{}'')"
    by (simp add: notFoundEnv_def run_defs sample_defs)
  have h2: "out (fetchAppByClientAppID notFoundEnv sampleCmd
          (inst_AppID notFoundEnv [(''app_id'', ''shop-abcde''), (''name'', ''shop'')])) =
      Inl (ErrAppNotFound ''app not found'')"
    by (simp add: notFoundEnv_def run_defs sample_defs)
  have h3: "EvImport ''5a0000000000000000000001'' ''5b0000000000000000000002'' ''{}'' importStrategyReplace
     \<in> set (trace (importApp notFoundEnv sampleCmd))"
    by (simp add: notFoundEnv_def run_defs sample_defs isObjectIDHex_def)
  have h4: "flagStrategy sampleCmd = importStrategyMerge"
    by (simp add: sample_defs)
  from C1_app_not_found_forces_replace_and_skips_diff [OF h1 h2] h1 h2 h3 h4 show ?thesis
    by (simp add: filter_empty_conv)
qed

lemma declined_emit:
  "isLoadEvent ev \<or> isPrepEvent ev \<Longrightarrow> declined r \<Longrightarrow> declined (emit ev r)"
  by (auto simp: declined_def dest: load_classes prep_classes)

lemma diffAndConfirm_declined:
  assumes "confirm_AskYesNo env = Inr False"
  shows "declined (diffAndConfirm env s appPath rootDir appData app)"
  using assms
  by (auto simp: declined_def diffAndConfirm_def Let_def nothingToDo_def confirmPrompt_def
      dest!: applyImport_events split: sum.splits)

lemma skipsDiff_declined: "skipsDiff st r \<Longrightarrow> declined r"
  by (auto simp: skipsDiff_def declined_def)

lemma importApp_declined:
  assumes "confirm_AskYesNo env = Inr False"
  shows "declined (importApp env ic)"
proof (rule importApp_rule [where Q = declined])
  show "declined (prepareAssets env (initial ic) appPath aid appData app)" for appPath aid appData app
    by (rule prepareAssets_rule [where Q = declined])
       (simp_all add: declined_emit diffAndConfirm_declined [OF assms], simp add: declined_def)
  show "declined (createNewApp env (initial ic) appPath aid appData q)" for appPath aid appData q
    by (rule skipsDiff_declined [OF createNewApp_skipsDiff])
qed (simp_all add: declined_emit, simp add: declined_def)

text \<open>
  C2.  When the run gets to the confirmation prompt and the user declines, the run returns nil
  with the prompt as its last event, and no event of the run is a remote mutation (creating an
  application, the push, the import of the assets) or a step of the re-sync (the export, the
  write into the directory).
\<close>

theorem C2_declined_confirmation_mutates_nothing:
  assumes "EvAskYesNo confirmPrompt \<in> set (trace (importApp env ic))"
    and "confirm_AskYesNo env = Inr False"
  shows "ret (out (importApp env ic)) = Returned None \<and>
         last (trace (importApp env ic)) = EvAskYesNo confirmPrompt \<and>
         (\<forall>ev\<in>set (trace (importApp env ic)). \<not> isRemoteMutation ev \<and> \<not> isReSync ev)"
  using importApp_declined [OF assms(2), of ic] assms(1)
  by (simp add: declined_def)

theorem C2_witness:
  "EvAskYesNo confirmPrompt \<in> set (trace (importApp decliningEnv sampleCmd)) \<and>
   confirm_AskYesNo decliningEnv = Inr False \<and>
   ret (out (importApp decliningEnv sampleCmd)) = Returned None \<and>
   last (trace (importApp decliningEnv sampleCmd)) = EvAskYesNo confirmPrompt \<and>
   filter (\<lambda>ev. isRemoteMutation ev \<or> isReSync ev) (trace (importApp decliningEnv sampleCmd)) = []"
proof -
  have h1: "EvAskYesNo confirmPrompt \<in> set (trace (importApp decliningEnv sampleCmd))"
    by (simp add: decliningEnv_def run_defs sample_defs)
  have h2: "confirm_AskYesNo decliningEnv = Inr False"
    by (simp add: decliningEnv_def)
  from C2_declined_confirmation_mutates_nothing [OF h1 h2] h1 h2 show ?thesis
    by (simp add: filter_empty_conv)
qed

subsection \<open>The whole of \<^verbatim>\<open>importApp\<close> and of \<^verbatim>\<open>Run\<close>\<close>

lemma upstream_classes:
  "isLoadEvent ev \<or> isCreateEvent ev \<or> isPrepEvent ev \<Longrightarrow>
     \<not> isDiff ev \<and> \<not> isImport ev \<and> \<not> isReSync ev \<and> \<not> isImportHosting ev \<and> \<not> isExport ev"
  by (cases ev) simp_all

lemma importApp_down_rule:
  assumes stable: "\<And>ev r. isLoadEvent ev \<or> isCreateEvent ev \<or> isPrepEvent ev \<Longrightarrow> Q r \<Longrightarrow> Q (emit ev r)"
    and rets: "\<And>s e. Q (returns s e)"
    and blocked: "\<And>s. Q (halt \<lparr>ret = Blocked, final = s\<rparr>)"
    and main: "\<And>s appPath rootDir appData app. Q (diffAndConfirm env s appPath rootDir appData app)"
  shows "Q (importApp env ic)"
proof -
  have prep: "Q (prepareAssets env s appPath aid appData app)" for s appPath aid appData app
  proof (rule prepareAssets_rule [where Q = Q])
    show "Q (emit ev r)" if "isPrepEvent ev" "Q r" for ev r
      using that by (intro stable) simp_all
  qed (rule rets, rule main)
  have new: "Q (createNewApp env s appPath aid appData q)" for s appPath aid appData q
  proof (rule createNewApp_rule [where Q = Q])
    show "Q (emit ev r)" if "isCreateEvent ev" "Q r" for ev r
      using that by (intro stable) simp_all
  qed (rule rets, rule blocked, rule prep)
  show ?thesis
  proof (rule importApp_rule [where Q = Q])
    show "Q (emit ev r)" if "isLoadEvent ev" "Q r" for ev r
      using that by (intro stable) simp_all
  qed (rule rets, rule prep, rule new)
qed

lemma Run_cases:
  "(out (Run env wd args) = Some 1 \<and>
    trace (Run env wd args) =
      [EvBaseRun, EvUIError (case runError args of Some err \<Rightarrow> err
                             | None \<Rightarrow> unknownStrategy env (flagStrategy (parseFlags wd args)))]) \<or>
   (trace (Run env wd args) =
      EvBaseRun # trace (importApp env (parseFlags wd args)) @
        (case ret (out (importApp env (parseFlags wd args))) of
           Returned (Some err) \<Rightarrow> [EvUIError err] | _ \<Rightarrow> []) \<and>
    out (Run env wd args) =
      (case ret (out (importApp env (parseFlags wd args))) of
         Blocked \<Rightarrow> None | Returned None \<Rightarrow> Some 0 | Returned (Some err) \<Rightarrow> Some 1))"
  by (auto simp: Run_def Let_def split: option.splits outcome.splits)

lemma Run_import_events:
  assumes "ev \<in> set (trace (Run env wd args))"
    and "\<And>m. ev \<noteq> EvUIError m" and "ev \<noteq> EvBaseRun"
  shows "ev \<in> set (trace (importApp env (parseFlags wd args))) \<and>
         trace (Run env wd args) =
           EvBaseRun # trace (importApp env (parseFlags wd args)) @
             (case ret (out (importApp env (parseFlags wd args))) of
                Returned (Some err) \<Rightarrow> [EvUIError err] | _ \<Rightarrow> []) \<and>
         out (Run env wd args) =
           (case ret (out (importApp env (parseFlags wd args))) of
              Blocked \<Rightarrow> None | Returned None \<Rightarrow> Some 0 | Returned (Some err) \<Rightarrow> Some 1)"
  using Run_cases [of env wd args] assms
  by (auto split: option.splits outcome.splits)

subsection \<open>An empty diff\<close>

lemma noOp_emit:
  "isLoadEvent ev \<or> isPrepEvent ev \<Longrightarrow> noOp ds r \<Longrightarrow> noOp ds (emit ev r)"
  by (auto simp: noOp_def dest: load_classes prep_classes)

lemma diffAndConfirm_noOp:
  assumes "api_Diff env = Inr ds"
  shows "noOp ds (diffAndConfirm env s appPath rootDir appData app)"
  using assms
  by (auto simp: noOp_def diffAndConfirm_def Let_def dest!: applyImport_events split: sum.splits)

lemma skipsDiff_noOp: "skipsDiff st r \<Longrightarrow> noOp ds r"
  by (auto simp: skipsDiff_def noOp_def)

lemma importApp_noOp:
  assumes "api_Diff env = Inr ds"
  shows "noOp ds (importApp env ic)"
proof (rule importApp_rule [where Q = "noOp ds"])
  show "noOp ds (prepareAssets env (initial ic) appPath aid appData app)" for appPath aid appData app
    by (rule prepareAssets_rule [where Q = "noOp ds"])
       (simp_all add: noOp_emit diffAndConfirm_noOp [OF assms], simp add: noOp_def)
  show "noOp ds (createNewApp env (initial ic) appPath aid appData q)" for appPath aid appData q
    by (rule skipsDiff_noOp [OF createNewApp_skipsDiff])
qed (simp_all add: noOp_emit, simp add: noOp_def)

text \<open>
  C3.  When the run computes the diff (the call \<^verbatim>\<open>Diff\<close> is an event of the run), the call
  succeeds, and the combined diff, the lines of the configuration diff followed, when the
  hosting assets are included, by the lines of the asset diff, is empty, then the run returns
  nil, its last event is the notice that there is nothing to do, and no event of the run is
  a remote mutation (creating an application, the push, the import of the assets) or a step
  of the re-sync (the export, the write into the directory).
\<close>

theorem C3_empty_diff_is_a_no_op:
  assumes "\<exists>ev\<in>set (trace (importApp env ic)). isDiff ev"
    and "api_Diff env = Inr ds"
    and "combinedDiff (final (out (importApp env ic))) ds = []"
  shows "ret (out (importApp env ic)) = Returned None \<and>
         last (trace (importApp env ic)) = EvUIInfo nothingToDo \<and>
         (\<forall>ev\<in>set (trace (importApp env ic)). \<not> isRemoteMutation ev \<and> \<not> isReSync ev)"
  using importApp_noOp [OF assms(2), of ic] assms(1,3)
  by (simp add: noOp_def)

theorem C3_witness:
  "filter isDiff (trace (importApp emptyDiffEnv sampleCmd)) \<noteq> [] \<and>
   api_Diff emptyDiffEnv = Inr [] \<and>
   combinedDiff (final (out (importApp emptyDiffEnv sampleCmd))) [] = [] \<and>
   ret (out (importApp emptyDiffEnv sampleCmd)) = Returned None \<and>
   last (trace (importApp emptyDiffEnv sampleCmd)) = EvUIInfo nothingToDo \<and>
   filter (\<lambda>ev. isRemoteMutation ev \<or> isReSync ev) (trace (importApp emptyDiffEnv sampleCmd)) = []"
proof -
  have h1: "\<exists>ev\<in>set (trace (importApp emptyDiffEnv sampleCmd)). isDiff ev"
    by (simp add: emptyDiffEnv_def run_defs sample_defs)
  have h2: "api_Diff emptyDiffEnv = Inr []"
    by (simp add: emptyDiffEnv_def)
  have h3: "combinedDiff (final (out (importApp emptyDiffEnv sampleCmd))) [] = []"
    by (simp add: emptyDiffEnv_def run_defs sample_defs)
  from C3_empty_diff_is_a_no_op [OF h1 h2 h3] h1 h2 h3 show ?thesis
    by (simp add: filter_empty_conv)
qed

subsection \<open>The strategy flag\<close>

text \<open>
  C4.  When the strategy is neither \<^verbatim>\<open>merge\<close> nor \<^verbatim>\<open>replace\<close>, \<^verbatim>\<open>Run\<close> returns 1 and its events
  are the parsing of the arguments and one error message, the message of the unknown strategy
  when the parsing succeeded: no event of \<^verbatim>\<open>importApp\<close> happens, neither the check of the login,
  nor the loading of the declaration, nor a remote call.  When the parsing succeeded and the
  strategy is one of the two, \<^verbatim>\<open>Run\<close> goes on with \<^verbatim>\<open>importApp\<close>, whose first event is the check
  of the login.  When the flag is absent the strategy is \<^verbatim>\<open>merge\<close>.
\<close>

theorem C4_unknown_strategy_is_rejected_before_any_work:
  "(flagStrategy (parseFlags wd args) \<noteq> importStrategyMerge \<and>
    flagStrategy (parseFlags wd args) \<noteq> importStrategyReplace \<longrightarrow>
      out (Run env wd args) = Some 1 \<and>
      trace (Run env wd args) =
        [EvBaseRun, EvUIError (case runError args of Some err \<Rightarrow> err
                               | None \<Rightarrow> unknownStrategy env (flagStrategy (parseFlags wd args)))]) \<and>
   (runError args = None \<and>
    (flagStrategy (parseFlags wd args) = importStrategyMerge \<or>
     flagStrategy (parseFlags wd args) = importStrategyReplace) \<longrightarrow>
      take 2 (trace (Run env wd args)) = [EvBaseRun, EvUser] \<and>
      (\<exists>rest. trace (Run env wd args) = EvBaseRun # trace (importApp env (parseFlags wd args)) @ rest)) \<and>
   (argStrategy args = None \<longrightarrow> flagStrategy (parseFlags wd args) = importStrategyMerge)"
proof (intro conjI impI)
  assume "runError args = None \<and>
    (flagStrategy (parseFlags wd args) = importStrategyMerge \<or>
     flagStrategy (parseFlags wd args) = importStrategyReplace)"
  then have eq: "trace (Run env wd args) =
      EvBaseRun # trace (importApp env (parseFlags wd args)) @
        (case ret (out (importApp env (parseFlags wd args))) of
           Returned (Some err) \<Rightarrow> [EvUIError err] | _ \<Rightarrow> [])"
    by (auto simp: Run_def Let_def split: option.splits outcome.splits)
  have "\<exists>t. trace (importApp env ic) = EvUser # t" for ic
    by (simp add: importApp_def loadLocal_def Let_def emit_def emits_def)
  then obtain t where "trace (importApp env (parseFlags wd args)) = EvUser # t"
    by blast
  with eq show "take 2 (trace (Run env wd args)) = [EvBaseRun, EvUser]"
    by simp
  from eq show "\<exists>rest. trace (Run env wd args) = EvBaseRun # trace (importApp env (parseFlags wd args)) @ rest"
    by blast
qed (auto simp: Run_def Let_def parseFlags_def orDefault_def split: option.splits)

theorem C4_witness:
  "flagStrategy (parseFlags ''/work/shop'' badStrategyArgs) = ''overwrite'' \<and>
   out (Run sampleEnv ''/work/shop'' badStrategyArgs) = Some 1 \<and>
   trace (Run sampleEnv ''/work/shop'' badStrategyArgs) =
     [EvBaseRun, EvUIError (unknownStrategy sampleEnv ''overwrite'')] \<and>
   runError replaceArgs = None \<and>
   flagStrategy (parseFlags ''/work/shop'' replaceArgs) = importStrategyReplace \<and>
   take 2 (trace (Run sampleEnv ''/work/shop'' replaceArgs)) = [EvBaseRun, EvUser] \<and>
   argStrategy sampleArgs = None \<and>
   flagStrategy (parseFlags ''/work/shop'' sampleArgs) = importStrategyMerge"
  using C4_unknown_strategy_is_rejected_before_any_work [of "''/work/shop''" badStrategyArgs sampleEnv]
    C4_unknown_strategy_is_rejected_before_any_work [of "''/work/shop''" replaceArgs sampleEnv]
    C4_unknown_strategy_is_rejected_before_any_work [of "''/work/shop''" sampleArgs sampleEnv]
  by (simp add: badStrategyArgs_def replaceArgs_def sample_defs)

subsection \<open>A failed push\<close>

lemma pushFailed_emit:
  "isLoadEvent ev \<or> isCreateEvent ev \<or> isPrepEvent ev \<Longrightarrow> pushFailed e r \<Longrightarrow> pushFailed e (emit ev r)"
  using upstream_classes [of ev] by (auto simp: pushFailed_def)

lemma diffAndConfirm_pushFailed:
  assumes "api_Import env = Some e"
  shows "pushFailed e (diffAndConfirm env s appPath rootDir appData app)"
  using assms
  by (auto simp: pushFailed_def diffAndConfirm_def applyImport_def Let_def split: sum.splits)

lemma importApp_pushFailed:
  assumes "api_Import env = Some e"
  shows "pushFailed e (importApp env ic)"
  by (rule importApp_down_rule [where Q = "pushFailed e"])
     (simp_all add: pushFailed_emit diffAndConfirm_pushFailed [OF assms], simp_all add: pushFailed_def)

text \<open>
  C5.  When the push (the call \<^verbatim>\<open>Import\<close>) is an event of the run and it fails, \<^verbatim>\<open>Run\<close> returns 1;
  the push is the last event of \<^verbatim>\<open>importApp\<close> and the only event after it is the error message,
  which wraps the error of the push; no event of the run is the import of the hosting assets
  or a step of the re-sync (the export, the write into the directory).
\<close>

theorem C5_failed_push_aborts_the_run:
  assumes "\<exists>ev\<in>set (trace (Run env wd args)). isImport ev"
    and "api_Import env = Some e"
  shows "out (Run env wd args) = Some 1 \<and>
         trace (Run env wd args) =
           EvBaseRun # trace (importApp env (parseFlags wd args)) @ [EvUIError (errImportFailure e)] \<and>
         isImport (last (trace (importApp env (parseFlags wd args)))) \<and>
         (\<forall>ev\<in>set (trace (Run env wd args)). \<not> isImportHosting ev \<and> \<not> isReSync ev)"
proof -
  from assms(1) obtain ev where ev: "ev \<in> set (trace (Run env wd args))" "isImport ev"
    by blast
  from ev(2) have "\<And>m. ev \<noteq> EvUIError m" "ev \<noteq> EvBaseRun"
    by auto
  from Run_import_events [OF ev(1) this] have
    run: "ev \<in> set (trace (importApp env (parseFlags wd args)))"
      "trace (Run env wd args) =
           EvBaseRun # trace (importApp env (parseFlags wd args)) @
             (case ret (out (importApp env (parseFlags wd args))) of
                Returned (Some err) \<Rightarrow> [EvUIError err] | _ \<Rightarrow> [])"
      "out (Run env wd args) =
           (case ret (out (importApp env (parseFlags wd args))) of
              Blocked \<Rightarrow> None | Returned None \<Rightarrow> Some 0 | Returned (Some err) \<Rightarrow> Some 1)"
    by simp_all
  from importApp_pushFailed [OF assms(2), of "parseFlags wd args"] run(1) ev(2) have
    "ret (out (importApp env (parseFlags wd args))) = Returned (Some (errImportFailure e))"
    "isImport (last (trace (importApp env (parseFlags wd args))))"
    "\<forall>ev\<in>set (trace (importApp env (parseFlags wd args))). \<not> isImportHosting ev \<and> \<not> isReSync ev"
    by (auto simp: pushFailed_def)
  with run(2,3) show ?thesis
    by simp
qed

theorem C5_witness:
  "filter isImport (trace (Run pushFailEnv ''/work/shop'' sampleArgs)) \<noteq> [] \<and>
   api_Import pushFailEnv = Some ''remote rejected the app'' \<and>
   out (Run pushFailEnv ''/work/shop'' sampleArgs) = Some 1 \<and>
   last (trace (Run pushFailEnv ''/work/shop'' sampleArgs)) =
     EvUIError ''failed to import app: remote rejected the app'' \<and>
   filter (\<lambda>ev. isImportHosting ev \<or> isReSync ev) (trace (Run pushFailEnv ''/work/shop'' sampleArgs)) = []"
proof -
  have h1: "\<exists>ev\<in>set (trace (Run pushFailEnv ''/work/shop'' sampleArgs)). isImport ev"
    by (simp add: pushFailEnv_def Run_def run_defs sample_defs)
  have h2: "api_Import pushFailEnv = Some ''remote rejected the app''"
    by (simp add: pushFailEnv_def)
  from C5_failed_push_aborts_the_run [OF h1 h2] h1 h2 show ?thesis
    by (simp add: filter_empty_conv errImportFailure_def)
qed

subsection \<open>A failed re-sync\<close>

lemma syncFailed_emit:
  "isLoadEvent ev \<or> isCreateEvent ev \<or> isPrepEvent ev \<Longrightarrow> syncFailed env e r \<Longrightarrow> syncFailed env e (emit ev r)"
  using upstream_classes [of ev] by (auto simp: syncFailed_def)

lemma reSync_syncFailed:
  assumes "api_Export env = Inl e \<or> (\<exists>body. api_Export env = Inr body \<and> writeToDirectory env = Some e)"
  shows "ret (out (reSync env s appPath app)) = Returned (Some (errImportAppSyncFailure e))"
  using assms by (auto simp: reSync_def)

lemma applyImport_syncFailed:
  assumes "api_Export env = Inl e \<or> (\<exists>body. api_Export env = Inr body \<and> writeToDirectory env = Some e)"
  shows "syncFailed env e (applyImport env s appPath rootDir appData app)"
  by (simp add: syncFailed_def applyImport_def reSync_syncFailed [OF assms] split: option.splits)

lemma diffAndConfirm_syncFailed:
  assumes "api_Export env = Inl e \<or> (\<exists>body. api_Export env = Inr body \<and> writeToDirectory env = Some e)"
  shows "syncFailed env e (diffAndConfirm env s appPath rootDir appData app)"
  using applyImport_syncFailed [OF assms, of s appPath rootDir appData app]
  by (auto simp: syncFailed_def diffAndConfirm_def Let_def split: sum.splits)

lemma importApp_syncFailed:
  assumes "api_Export env = Inl e \<or> (\<exists>body. api_Export env = Inr body \<and> writeToDirectory env = Some e)"
  shows "syncFailed env e (importApp env ic)"
  by (rule importApp_down_rule [where Q = "syncFailed env e"])
     (simp_all add: syncFailed_emit diffAndConfirm_syncFailed [OF assms], simp_all add: syncFailed_def)

lemma sync_message_distinct:
  "errImportAppSyncFailure e \<noteq> errImportFailure e'"
  "errImportAppSyncFailure e \<noteq> errHostingImportFailure e'"
  by (simp_all add: errImportAppSyncFailure_def errImportFailure_def errHostingImportFailure_def)

text \<open>
  C6.  When the export after the push is an event of the run and either the export fails or
  the write of the exported application into the directory fails, \<^verbatim>\<open>Run\<close> returns 1 and its
  last event is the error message made by \<^verbatim>\<open>errImportAppSyncFailure\<close>, which is never a message
  of a failed push or of a failed import of the assets; the push itself had succeeded and is
  an event of the run.
\<close>

theorem C6_failed_re_sync_is_a_sync_error:
  assumes "\<exists>ev\<in>set (trace (Run env wd args)). isExport ev"
    and "api_Export env = Inl e \<or> (\<exists>body. api_Export env = Inr body \<and> writeToDirectory env = Some e)"
  shows "out (Run env wd args) = Some 1 \<and>
         last (trace (Run env wd args)) = EvUIError (errImportAppSyncFailure e) \<and>
         api_Import env = None \<and>
         (\<exists>ev\<in>set (trace (Run env wd args)). isImport ev) \<and>
         (\<forall>e'. errImportAppSyncFailure e \<noteq> errImportFailure e' \<and>
               errImportAppSyncFailure e \<noteq> errHostingImportFailure e')"
proof -
  from assms(1) obtain ev where ev: "ev \<in> set (trace (Run env wd args))" "isExport ev"
    by blast
  from ev(2) have "\<And>m. ev \<noteq> EvUIError m" "ev \<noteq> EvBaseRun"
    by auto
  from Run_import_events [OF ev(1) this] have
    run: "ev \<in> set (trace (importApp env (parseFlags wd args)))"
      "trace (Run env wd args) =
           EvBaseRun # trace (importApp env (parseFlags wd args)) @
             (case ret (out (importApp env (parseFlags wd args))) of
                Returned (Some err) \<Rightarrow> [EvUIError err] | _ \<Rightarrow> [])"
      "out (Run env wd args) =
           (case ret (out (importApp env (parseFlags wd args))) of
              Blocked \<Rightarrow> None | Returned None \<Rightarrow> Some 0 | Returned (Some err) \<Rightarrow> Some 1)"
    by simp_all
  from importApp_syncFailed [OF assms(2), of "parseFlags wd args"] run(1) ev(2) have
    "ret (out (importApp env (parseFlags wd args))) = Returned (Some (errImportAppSyncFailure e))"
    "api_Import env = None"
    "\<exists>ev\<in>set (trace (importApp env (parseFlags wd args))). isImport ev"
    by (auto simp: syncFailed_def)
  with run(2,3) show ?thesis
    by (auto simp: sync_message_distinct)
qed

theorem C6_witness:
  "filter isExport (trace (Run exportFailEnv ''/work/shop'' sampleArgs)) \<noteq> [] \<and>
   api_Export exportFailEnv = Inl ''connection reset'' \<and>
   out (Run exportFailEnv ''/work/shop'' sampleArgs) = Some 1 \<and>
   last (trace (Run exportFailEnv ''/work/shop'' sampleArgs)) =
     EvUIError ''failed to sync app with local directory after import: connection reset'' \<and>
   filter isImport (trace (Run exportFailEnv ''/work/shop'' sampleArgs)) \<noteq> [] \<and>
   filter isExport (trace (Run writeBackFailEnv ''/work/shop'' sampleArgs)) \<noteq> [] \<and>
   api_Export writeBackFailEnv = Inr ''zip'' \<and>
   writeToDirectory writeBackFailEnv = Some ''permission denied'' \<and>
   out (Run writeBackFailEnv ''/work/shop'' sampleArgs) = Some 1 \<and>
   last (trace (Run writeBackFailEnv ''/work/shop'' sampleArgs)) =
     EvUIError ''failed to sync app with local directory after import: permission denied''"
proof -
  have h1: "\<exists>ev\<in>set (trace (Run exportFailEnv ''/work/shop'' sampleArgs)). isExport ev"
    by (simp add: exportFailEnv_def Run_def run_defs sample_defs)
  have h2: "api_Export exportFailEnv = Inl ''connection reset''"
    by (simp add: exportFailEnv_def)
  have k1: "\<exists>ev\<in>set (trace (Run writeBackFailEnv ''/work/shop'' sampleArgs)). isExport ev"
    by (simp add: writeBackFailEnv_def Run_def run_defs sample_defs)
  have k2: "api_Export writeBackFailEnv = Inr ''zip'' \<and> writeToDirectory writeBackFailEnv = Some ''permission denied''"
    by (simp add: writeBackFailEnv_def sample_defs)
  from k2 have k3: "api_Export writeBackFailEnv = Inl ''permission denied'' \<or>
      (\<exists>body. api_Export writeBackFailEnv = Inr body \<and> writeToDirectory writeBackFailEnv = Some ''permission denied'')"
    by simp
  from C6_failed_re_sync_is_a_sync_error [OF h1 disjI1 [OF h2]]
    C6_failed_re_sync_is_a_sync_error [OF k1 k3] h1 h2 k1 k2
  show ?thesis
    by (simp add: filter_empty_conv errImportAppSyncFailure_def)
qed

subsection \<open>Declined prompts\<close>

lemma createDeclined_emit:
  "isLoadEvent ev \<or> isPrepEvent ev \<Longrightarrow> createDeclined r \<Longrightarrow> createDeclined (emit ev r)"
  by (cases ev) (auto simp: createDeclined_def)

lemma applyImport_no_create_prompt:
  "ev \<in> set (trace (applyImport env s appPath rootDir appData app)) \<Longrightarrow> \<not> isCreatePrompt ev"
  by (auto simp: applyImport_def reSync_def split: sum.splits option.splits if_splits)

lemma diffAndConfirm_createDeclined:
  "createDeclined (diffAndConfirm env s appPath rootDir appData app)"
  by (auto simp: createDeclined_def diffAndConfirm_def Let_def
      dest!: applyImport_no_create_prompt split: sum.splits)

lemma createNewApp_createDeclined:
  assumes "create_AskYesNo env = Inr False"
  shows "createDeclined (createNewApp env s appPath aid appData q)"
  using assms by (simp add: createDeclined_def createNewApp_def askCreateEmptyApp_def Let_def)

lemma importApp_createDeclined:
  assumes "create_AskYesNo env = Inr False"
  shows "createDeclined (importApp env ic)"
proof (rule importApp_rule [where Q = createDeclined])
  show "createDeclined (prepareAssets env (initial ic) appPath aid appData app)" for appPath aid appData app
    by (rule prepareAssets_rule [where Q = createDeclined])
       (simp_all add: createDeclined_emit diffAndConfirm_createDeclined, simp add: createDeclined_def)
  show "createDeclined (createNewApp env (initial ic) appPath aid appData q)" for appPath aid appData q
    by (rule createNewApp_createDeclined [OF assms])
qed (simp_all add: createDeclined_emit, simp add: createDeclined_def)

text \<open>
  C9.  When the user declines a prompt, either the question whether to create a new
  application (a yes/no prompt of the run other than the confirmation, answered no) or the
  confirmation of the diff (answered no), \<^verbatim>\<open>Run\<close> returns 0 and reports no error of \<^verbatim>\<open>importApp\<close>:
  its events are the parsing of the arguments followed by the events of \<^verbatim>\<open>importApp\<close>; and no
  event of the run is a remote mutation or a step of the re-sync.
\<close>

theorem C9_declining_a_prompt_exits_with_zero:
  assumes "((\<exists>ev\<in>set (trace (Run env wd args)). isCreatePrompt ev) \<and> create_AskYesNo env = Inr False) \<or>
           (EvAskYesNo confirmPrompt \<in> set (trace (Run env wd args)) \<and> confirm_AskYesNo env = Inr False)"
  shows "out (Run env wd args) = Some 0 \<and>
         trace (Run env wd args) = EvBaseRun # trace (importApp env (parseFlags wd args)) \<and>
         (\<forall>ev\<in>set (trace (Run env wd args)). \<not> isRemoteMutation ev \<and> \<not> isReSync ev)"
  using assms
proof (elim disjE conjE bexE)
  fix ev
  assume ev: "ev \<in> set (trace (Run env wd args))" "isCreatePrompt ev"
    and no: "create_AskYesNo env = Inr False"
  from ev(2) have "\<And>m. ev \<noteq> EvUIError m" "ev \<noteq> EvBaseRun"
    by auto
  from Run_import_events [OF ev(1) this] importApp_createDeclined [OF no, of "parseFlags wd args"] ev(2)
  show ?thesis
    by (auto simp: createDeclined_def)
next
  assume ev: "EvAskYesNo confirmPrompt \<in> set (trace (Run env wd args))"
    and no: "confirm_AskYesNo env = Inr False"
  from Run_import_events [OF ev] importApp_declined [OF no, of "parseFlags wd args"]
  show ?thesis
    by (auto simp: declined_def)
qed

theorem C9_witness:
  "filter isCreatePrompt (trace (Run createDecliningEnv ''/work/shop'' sampleArgs)) \<noteq> [] \<and>
   create_AskYesNo createDecliningEnv = Inr False \<and>
   out (Run createDecliningEnv ''/work/shop'' sampleArgs) = Some 0 \<and>
   EvAskYesNo confirmPrompt \<in> set (trace (Run decliningEnv ''/work/shop'' sampleArgs)) \<and>
   confirm_AskYesNo decliningEnv = Inr False \<and>
   out (Run decliningEnv ''/work/shop'' sampleArgs) = Some 0 \<and>
   filter (\<lambda>ev. isRemoteMutation ev \<or> isReSync ev) (trace (Run decliningEnv ''/work/shop'' sampleArgs)) = []"
proof -
  have h1: "\<exists>ev\<in>set (trace (Run createDecliningEnv ''/work/shop'' sampleArgs)). isCreatePrompt ev"
    by (simp add: createDecliningEnv_def notFoundEnv_def Run_def run_defs sample_defs confirmPrompt_def)
  have h2: "create_AskYesNo createDecliningEnv = Inr False"
    by (simp add: createDecliningEnv_def)
  have k1: "EvAskYesNo confirmPrompt \<in> set (trace (Run decliningEnv ''/work/shop'' sampleArgs))"
    by (simp add: decliningEnv_def Run_def run_defs sample_defs)
  have k2: "confirm_AskYesNo decliningEnv = Inr False"
    by (simp add: decliningEnv_def)
  from C9_declining_a_prompt_exits_with_zero [OF disjI1 [OF conjI [OF h1 h2]]]
    C9_declining_a_prompt_exits_with_zero [OF disjI2 [OF conjI [OF k1 k2]]] h1 h2 k1 k2
  show ?thesis
    by (simp add: filter_empty_conv)
qed

end
